theory Spec2Isabelle
  imports Complex_Main
begin

section \<open>Strings of the host language\<close>

text \<open>
  A string is a list of code units. The model covers the code units U+0000 to U+00FF,
  one \<open>char\<close> each; on that range the library functions used by \<open>countSyllables\<close>
  (\<open>toLowerCase\<close>, \<open>replace\<close> with the pattern \<open>[^a-z]\<close>, \<open>trim\<close>, \<open>split\<close> with the
  pattern \<open>\s+\<close>, \<open>endsWith\<close>, \<open>includes\<close>) are written out below.
\<close>

definition toLowerCaseChar :: "char \<Rightarrow> char" where
  "toLowerCaseChar c =
     (let n = (of_char c :: nat)
      in if (65 \<le> n \<and> n \<le> 90) \<or> (192 \<le> n \<and> n \<le> 222 \<and> n \<noteq> 215)
         then char_of (n + 32) else c)"

definition toLowerCase :: "string \<Rightarrow> string" where
  "toLowerCase s = map toLowerCaseChar s"

definition isLowerAZ :: "char \<Rightarrow> bool" where
  \<comment> \<open>the character class \<open>[a-z]\<close>\<close>
  "isLowerAZ c = (97 \<le> (of_char c :: nat) \<and> (of_char c :: nat) \<le> 122)"

definition replaceNonLetters :: "string \<Rightarrow> string" where
  \<comment> \<open>\<open>.replace(/[^a-z]/g, ' ')\<close>\<close>
  "replaceNonLetters s = map (\<lambda>c. if isLowerAZ c then c else CHR '' '') s"

definition isWhiteSpace :: "char \<Rightarrow> bool" where
  \<comment> \<open>white space and line terminators below U+0100: TAB, LF, VT, FF, CR, SP, NBSP\<close>
  "isWhiteSpace c = ((of_char c :: nat) \<in> {9, 10, 11, 12, 13, 32, 160})"

definition trim :: "string \<Rightarrow> string" where
  \<comment> \<open>white space is removed from both ends\<close>
  "trim s = rev (dropWhile isWhiteSpace (rev (dropWhile isWhiteSpace s)))"

text \<open>
  \<open>split(/\s+/)\<close>: the text before the first white-space run is a piece, and the rest
  after that run is split in the same way. A string that starts or ends with white
  space gets an empty first or last piece; the empty string gives one empty piece.
\<close>

function splitWhiteSpace :: "string \<Rightarrow> string list" where
  "splitWhiteSpace s =
     (let piece = takeWhile (\<lambda>c. \<not> isWhiteSpace c) s;
          rest = dropWhile (\<lambda>c. \<not> isWhiteSpace c) s
      in if rest = [] then [piece]
         else piece # splitWhiteSpace (dropWhile isWhiteSpace rest))"
  by pat_completeness auto
termination
proof (relation "measure length")
  show "wf (measure length :: string rel)"
    by simp
next
  fix s piece rest :: string
  assume rest: "rest = dropWhile (\<lambda>c. \<not> isWhiteSpace c) s" and ne: "rest \<noteq> []"
  from ne obtain c cs where r: "rest = c # cs"
    by (auto simp: neq_Nil_conv)
  have "dropWhile (\<lambda>c. \<not> isWhiteSpace c) s \<noteq> []"
    using ne rest by simp
  then have "\<not> \<not> isWhiteSpace (hd (dropWhile (\<lambda>c. \<not> isWhiteSpace c) s))"
    by (rule hd_dropWhile)
  then have "isWhiteSpace c"
    using r rest by simp
  then have "length (dropWhile isWhiteSpace rest) \<le> length cs"
    using r by (simp add: length_dropWhile_le)
  moreover have "length rest \<le> length s"
    using rest by (simp add: length_dropWhile_le)
  ultimately show "(dropWhile isWhiteSpace rest, s) \<in> measure length"
    using r by simp
qed

declare splitWhiteSpace.simps [simp del]

definition endsWith :: "string \<Rightarrow> string \<Rightarrow> bool" where
  \<comment> \<open>\<open>w.endsWith(suf)\<close>\<close>
  "endsWith w suf = (length suf \<le> length w \<and> drop (length w - length suf) w = suf)"

definition vowels :: string where
  "vowels = ''aeiouy''"

definition stringIncludes :: "string \<Rightarrow> char \<Rightarrow> bool" where
  \<comment> \<open>\<open>vowels.includes(ch)\<close> for a one-character string \<open>ch\<close>\<close>
  "stringIncludes s c = (c \<in> set s)"

section \<open>The syllable estimator\<close>

text \<open>
  The inner loop of \<open>countSyllables\<close> over the characters of a word, with its two
  variables \<open>isPrevVowel\<close> and \<open>syllables\<close>.
\<close>

fun vowelGroupLoop :: "string \<Rightarrow> bool \<Rightarrow> int \<Rightarrow> int" where
  "vowelGroupLoop [] isPrevVowel syllables = syllables"
| "vowelGroupLoop (c # cs) isPrevVowel syllables =
     (let isVowel = stringIncludes vowels c
      in vowelGroupLoop cs isVowel
           (if isVowel \<and> \<not> isPrevVowel then syllables + 1 else syllables))"

text \<open>
  The three statements after the loop, each as the new value of \<open>syllables\<close>: the silent
  \<open>e\<close> at the end, the ending \<open>le\<close> that forms a syllable, and at least one syllable for
  each word.
\<close>

definition silentE :: "string \<Rightarrow> int \<Rightarrow> int" where
  "silentE w syllables =
     (if endsWith w ''e'' \<and> syllables > 1 \<and> \<not> endsWith w ''le''
      then syllables - 1 else syllables)"

definition endingLe :: "string \<Rightarrow> int \<Rightarrow> int" where
  "endingLe w syllables =
     (if endsWith w ''le'' \<and> length w > 2 \<and> \<not> stringIncludes vowels (w ! (length w - 3))
      then syllables + 1 else syllables)"

definition atLeastOne :: "int \<Rightarrow> int" where
  "atLeastOne syllables = (if syllables = 0 then 1 else syllables)"

text \<open>One round of the loop over the words: the new value of \<open>totalSyllables\<close>.\<close>

definition wordStep :: "string \<Rightarrow> int \<Rightarrow> int" where
  "wordStep w totalSyllables =
     (if w = [] then totalSyllables
      else if length w = 1 then totalSyllables + 1
      else totalSyllables
             + atLeastOne (endingLe w (silentE w (vowelGroupLoop w False 0))))"

definition countSyllablesString :: "string \<Rightarrow> int" where
  "countSyllablesString line =
     (let word = trim (replaceNonLetters (toLowerCase line))
      in if word = [] then 0
         else fold wordStep (splitWhiteSpace word) 0)"

text \<open>
  The argument is typed \<open>string\<close> in the source, and the types are erased when the
  program runs: on any other value the call of \<open>toLowerCase\<close> raises a type error
  inside the \<open>try\<close> block.
\<close>

datatype jsValue = JSString string | JSUndefined | JSNull | JSNumber int | JSBoolean bool

datatype jsError = TypeError

definition countSyllablesTry :: "jsValue \<Rightarrow> jsError + int" where
  "countSyllablesTry v =
     (case v of JSString line \<Rightarrow> Inr (countSyllablesString line) | _ \<Rightarrow> Inl TypeError)"

definition countSyllables :: "jsValue \<Rightarrow> int" where
  "countSyllables v = (case countSyllablesTry v of Inr n \<Rightarrow> n | Inl e \<Rightarrow> 0)"

section \<open>The plugin: settings, view and markers\<close>

record SyllableCounterSettings =
  maxLinesToProcess :: int
  updateDebounceInterval :: int
  onlyVisibleRange :: bool
  showZeroSyllables :: bool

definition DEFAULT_SETTINGS :: SyllableCounterSettings where
  "DEFAULT_SETTINGS =
     \<lparr>maxLinesToProcess = 500, updateDebounceInterval = 500,
      onlyVisibleRange = True, showZeroSyllables = False\<rparr>"

text \<open>
  What a pass reads from the host: the bounding rectangles (only \<open>top\<close> and \<open>bottom\<close>
  are used), the elements of class \<open>cm-line\<close> with their \<open>offsetTop\<close> (\<open>None\<close> when
  undefined), the element of class \<open>cm-editor\<close> (\<open>None\<close> when the query finds none)
  and the editor of the view with the text \<open>getValue()\<close> returns (\<open>None\<close> when the view
  has no editor). A host call may throw; \<open>failingCall\<close> names the one that does.
\<close>

record DOMRect =
  rectTop :: real
  rectBottom :: real

record lineElement =
  lineRect :: DOMRect
  offsetTop :: "int option"

record editorElement =
  editorRect :: DOMRect
  cmLines :: "lineElement list"

datatype hostCall = QuerySelector | QuerySelectorAll | GetBoundingClientRect | GetValue | AppendChild

record MarkdownView =
  editor :: "string option"
  cmEditor :: "editorElement option"
  failingCall :: "hostCall option"

record marker =
  textContent :: string
  styleTop :: "string option"

text \<open>
  The fields of the plugin object that a pass reads and writes, and the delays of the
  \<open>setTimeout\<close> calls it has made.
\<close>

record plugin =
  syllableMarkers :: "marker list"
  isProcessing :: bool
  pendingUpdate :: bool
  timeouts :: "nat list"

section \<open>Numbers in template strings, lines of the document\<close>

function showNat :: "nat \<Rightarrow> string" where
  "showNat n =
     (if n < 10 then [char_of (48 + n)]
      else showNat (n div 10) @ [char_of (48 + n mod 10)])"
  by pat_completeness auto
termination
  by (relation "measure id") auto

declare showNat.simps [simp del]

definition showInt :: "int \<Rightarrow> string" where
  "showInt i = (if i < 0 then CHR ''-'' # showNat (nat (- i)) else showNat (nat i))"

text \<open>\<open>content.split('\n')\<close>: the pieces between the line feeds, empty ones kept.\<close>

function splitNewline :: "string \<Rightarrow> string list" where
  "splitNewline s =
     (let piece = takeWhile (\<lambda>c. c \<noteq> CHR ''\<newline>'') s;
          rest = dropWhile (\<lambda>c. c \<noteq> CHR ''\<newline>'') s
      in if rest = [] then [piece] else piece # splitNewline (tl rest))"
  by pat_completeness auto
termination
proof (relation "measure length")
  show "wf (measure length :: string rel)"
    by simp
next
  fix s piece rest :: string
  assume rest: "rest = dropWhile (\<lambda>c. c \<noteq> CHR ''\<newline>'') s" and ne: "rest \<noteq> []"
  have "length rest \<le> length s"
    using rest by (simp add: length_dropWhile_le)
  moreover have "length (tl rest) < length rest"
    using ne by (cases rest) auto
  ultimately show "(tl rest, s) \<in> measure length"
    by simp
qed

declare splitNewline.simps [simp del]

definition arrayGet :: "'a list \<Rightarrow> int \<Rightarrow> 'a option" where
  \<comment> \<open>\<open>xs[i]\<close>, undefined (\<open>None\<close>) outside the array\<close>
  "arrayGet xs i = (if 0 \<le> i \<and> i < int (length xs) then Some (xs ! nat i) else None)"

section \<open>The visible line range\<close>

definition isVisible :: "DOMRect \<Rightarrow> DOMRect \<Rightarrow> bool" where
  "isVisible editorRect' lineRect' =
     (rectBottom lineRect' \<ge> rectTop editorRect' - 100
      \<and> rectTop lineRect' \<le> rectBottom editorRect' + 100)"

text \<open>
  The loop of \<open>getVisibleLineRange\<close> from index \<open>i\<close> on, over the line elements not seen
  yet, with its variables \<open>startLine\<close> and \<open>endLine\<close>; the third equation's middle branch
  is the \<open>break\<close>.
\<close>

fun visibleLoop :: "DOMRect \<Rightarrow> lineElement list \<Rightarrow> int \<Rightarrow> int \<Rightarrow> int \<Rightarrow> int \<times> int" where
  "visibleLoop editorRect' [] i startLine endLine = (startLine, endLine)"
| "visibleLoop editorRect' (l # ls) i startLine endLine =
     (if isVisible editorRect' (lineRect l)
      then visibleLoop editorRect' ls (i + 1) (if startLine = - 1 then i else startLine) i
      else if startLine \<noteq> - 1 \<and> rectTop (lineRect l) > rectBottom editorRect'
      then (startLine, endLine)
      else visibleLoop editorRect' ls (i + 1) startLine endLine)"

definition getVisibleLineRange :: "editorElement option \<Rightarrow> (int \<times> int) option" where
  "getVisibleLineRange e =
     (case e of
        None \<Rightarrow> None
      | Some el \<Rightarrow>
          let lineElements = cmLines el
          in if length lineElements = 0 then None
             else
               let (startLine, endLine) = visibleLoop (editorRect el) lineElements 0 (- 1) (- 1)
               in if startLine = - 1 then None
                  else Some (max 0 (startLine - 10),
                             min (int (length lineElements) - 1) (endLine + 10)))"

section \<open>The synchronization pass\<close>

definition clearSyllableMarkers :: "plugin \<Rightarrow> plugin" where
  "clearSyllableMarkers p = p\<lparr>syllableMarkers := []\<rparr>"

text \<open>
  The line range of \<open>updateSyllableCounts\<close>, from the line elements and the settings
  (the statements from \<open>let startLine = 0\<close> to the end of the visible-range branch).
\<close>

definition updateSyllableCounts_range :: "SyllableCounterSettings \<Rightarrow> editorElement \<Rightarrow> int \<times> int" where
  "updateSyllableCounts_range settings el =
     (let lineElements = cmLines el;
          startLine = 0;
          endLine = min (int (length lineElements) - 1) (maxLinesToProcess settings - 1)
      in if onlyVisibleRange settings
         then (case getVisibleLineRange (Some el) of
                 None \<Rightarrow> (startLine, endLine)
               | Some (visStart, visEnd) \<Rightarrow>
                   if visEnd - visStart + 1 > maxLinesToProcess settings
                   then (visStart, visStart + maxLinesToProcess settings - 1)
                   else (visStart, visEnd))
         else (startLine, endLine))"

definition markerText :: "int \<Rightarrow> string" where
  "markerText syllableCount =
     showInt syllableCount @ '' ''
       @ (if syllableCount = 1 then ''syllable'' else ''syllables'')"

text \<open>One round of the loop over the line indices.\<close>

definition updateSyllableCounts_line ::
  "SyllableCounterSettings \<Rightarrow> string list \<Rightarrow> lineElement list \<Rightarrow> int \<Rightarrow> plugin \<Rightarrow> plugin" where
  "updateSyllableCounts_line settings lines lineElements index p =
     (if index \<ge> int (length lines) \<or> index \<ge> int (length lineElements) then p
      else
        let line = (case arrayGet lines index of None \<Rightarrow> JSUndefined | Some l \<Rightarrow> JSString l);
            syllableCount = countSyllables line
        in if syllableCount > 0 \<or> showZeroSyllables settings
           then (case arrayGet lineElements index of
                   None \<Rightarrow> p
                 | Some lineElement' \<Rightarrow>
                     let m = \<lparr>textContent = markerText syllableCount,
                              styleTop = (case offsetTop lineElement' of
                                            None \<Rightarrow> None
                                          | Some t \<Rightarrow> Some (showInt t @ ''px''))\<rparr>
                     in p\<lparr>syllableMarkers := syllableMarkers p @ [m]\<rparr>)
           else p)"

datatype completion = Normal | Return | Throw

text \<open>
  The \<open>try\<close> block: how it ends, and the plugin fields at that point. What was assigned
  before a \<open>return\<close> or an exception stays assigned. The function is declared \<open>async\<close>
  and awaits nothing, so its body runs from the first statement to the last without
  another callback in between.
\<close>

definition updateSyllableCounts_try ::
  "SyllableCounterSettings \<Rightarrow> MarkdownView \<Rightarrow> plugin \<Rightarrow> completion \<times> plugin" where
  "updateSyllableCounts_try settings view p0 =
     (let p = clearSyllableMarkers p0
      in case editor view of
           None \<Rightarrow> (Return, p\<lparr>isProcessing := False\<rparr>)
         | Some content \<Rightarrow>
             if failingCall view = Some QuerySelector then (Throw, p)
             else
               (case cmEditor view of
                  None \<Rightarrow> (Return, p\<lparr>isProcessing := False\<rparr>)
                | Some el \<Rightarrow>
                    if failingCall view = Some QuerySelectorAll then (Throw, p)
                    else
                      let lineElements = cmLines el
                      in if length lineElements = 0 then (Return, p\<lparr>isProcessing := False\<rparr>)
                         else if onlyVisibleRange settings
                                 \<and> failingCall view = Some GetBoundingClientRect
                         then (Throw, p)
                         else
                           let (startLine, endLine) = updateSyllableCounts_range settings el
                           in if failingCall view = Some GetValue then (Throw, p)
                              else
                                let lines = splitNewline content;
                                    p' = fold (updateSyllableCounts_line settings lines lineElements)
                                           [startLine..endLine] p
                                in if failingCall view = Some AppendChild then (Throw, p')
                                   else (Normal, p')))"

text \<open>The \<open>catch\<close> block writes to the console and changes no field.\<close>

definition updateSyllableCounts_catch :: "completion \<times> plugin \<Rightarrow> plugin" where
  "updateSyllableCounts_catch r = snd r"

definition updateSyllableCounts_finally :: "plugin \<Rightarrow> plugin" where
  "updateSyllableCounts_finally p =
     (let p1 = p\<lparr>isProcessing := False\<rparr>
      in if pendingUpdate p1 then p1\<lparr>timeouts := timeouts p1 @ [50]\<rparr> else p1)"

definition updateSyllableCounts :: "SyllableCounterSettings \<Rightarrow> MarkdownView \<Rightarrow> plugin \<Rightarrow> plugin" where
  "updateSyllableCounts settings view p =
     (if isProcessing p then p\<lparr>pendingUpdate := True\<rparr>
      else
        let p1 = p\<lparr>isProcessing := True, pendingUpdate := False\<rparr>
        in updateSyllableCounts_finally
             (updateSyllableCounts_catch (updateSyllableCounts_try settings view p1)))"

section \<open>The adjustments as the specification words them\<close>

text \<open>
  The two adjustments and the floor, written from the wording of the specification
  rather than from the code: a token ends in \<open>e\<close> when its last character is \<open>e\<close>, it
  ends in \<open>le\<close> when its last two characters are \<open>l\<close> and \<open>e\<close>, and the character three
  positions from the end is the third of the reversed token.
\<close>

definition spec_endsInE :: "string \<Rightarrow> bool" where
  "spec_endsInE w = (w \<noteq> [] \<and> last w = CHR ''e'')"

definition spec_endsInLe :: "string \<Rightarrow> bool" where
  "spec_endsInLe w = (2 \<le> length w \<and> last w = CHR ''e'' \<and> last (butlast w) = CHR ''l'')"

definition spec_isVowel :: "char \<Rightarrow> bool" where
  "spec_isVowel c =
     (c = CHR ''a'' \<or> c = CHR ''e'' \<or> c = CHR ''i'' \<or> c = CHR ''o'' \<or> c = CHR ''u'' \<or> c = CHR ''y'')"

definition spec_adjustSilentE :: "string \<Rightarrow> int \<Rightarrow> int" where
  "spec_adjustSilentE w n = (if spec_endsInE w \<and> n > 1 \<and> \<not> spec_endsInLe w then n - 1 else n)"

definition spec_adjustLe :: "string \<Rightarrow> int \<Rightarrow> int" where
  "spec_adjustLe w n =
     (if spec_endsInLe w \<and> length w > 2 \<and> \<not> spec_isVowel (rev w ! 2) then n + 1 else n)"

definition spec_tokenCount :: "string \<Rightarrow> int" where
  "spec_tokenCount w = max 1 (spec_adjustLe w (spec_adjustSilentE w (vowelGroupLoop w False 0)))"

section \<open>Auxiliary notions for the proofs\<close>


text \<open>An idle plugin with no markers, and what one round and one pass add to it.\<close>

definition emptyPlugin :: plugin where
  "emptyPlugin = \<lparr>syllableMarkers = [], isProcessing = False, pendingUpdate = False, timeouts = []\<rparr>"

definition lineMarkers ::
  "SyllableCounterSettings \<Rightarrow> string list \<Rightarrow> lineElement list \<Rightarrow> int \<Rightarrow> marker list" where
  "lineMarkers settings lines lineElements index =
     syllableMarkers (updateSyllableCounts_line settings lines lineElements index emptyPlugin)"

definition passMarkers :: "SyllableCounterSettings \<Rightarrow> MarkdownView \<Rightarrow> marker list" where
  "passMarkers settings view = syllableMarkers (snd (updateSyllableCounts_try settings view emptyPlugin))"

text \<open>
  Concrete inputs: a line element 20 units high at offset \<open>t\<close>, an editor element 400
  units high that shows two of them, and a view of that editor element.
\<close>

definition exampleLine :: "int \<Rightarrow> lineElement" where
  "exampleLine t =
     \<lparr>lineRect = \<lparr>rectTop = of_int t, rectBottom = of_int t + 20\<rparr>, offsetTop = Some t\<rparr>"

definition exampleEditorElement :: editorElement where
  "exampleEditorElement =
     \<lparr>editorRect = \<lparr>rectTop = 0, rectBottom = 400\<rparr>, cmLines = [exampleLine 0, exampleLine 20]\<rparr>"

definition exampleView :: "string \<Rightarrow> hostCall option \<Rightarrow> MarkdownView" where
  "exampleView content failing =
     \<lparr>editor = Some content, cmEditor = Some exampleEditorElement, failingCall = failing\<rparr>"

section \<open>Properties of the estimator\<close>

subsection \<open>Counts are never negative\<close>

lemma vowelGroupLoop_ge: "n \<le> vowelGroupLoop w b n"
proof (induction w arbitrary: b n)
  case Nil
  show ?case by simp
next
  case (Cons c cs)
  have "n \<le> (if stringIncludes vowels c \<and> \<not> b then n + 1 else n)"
    by simp
  also have "\<dots> \<le> vowelGroupLoop (c # cs) b n"
    using Cons.IH by (simp add: Let_def)
  finally show ?case .
qed

lemma silentE_pos: "0 \<le> n \<Longrightarrow> 0 \<le> silentE w n"
  by (simp add: silentE_def)

lemma endingLe_pos: "0 \<le> n \<Longrightarrow> 0 \<le> endingLe w n"
  by (simp add: endingLe_def)


























subsection \<open>The code's adjustments and the specification's wording\<close>

lemma endsWith_e: "endsWith w ''e'' = spec_endsInE w"
proof (cases w rule: rev_cases)
  case Nil
  then show ?thesis by (simp add: endsWith_def spec_endsInE_def)
next
  case (snoc ys x)
  then show ?thesis by (simp add: endsWith_def spec_endsInE_def)
qed

lemma endsWith_le: "endsWith w ''le'' = spec_endsInLe w"
proof (cases w rule: rev_cases)
  case Nil
  then show ?thesis by (simp add: endsWith_def spec_endsInLe_def)
next
  case (snoc ys x)
  note outer = snoc
  show ?thesis
  proof (cases ys rule: rev_cases)
    case Nil
    then show ?thesis using outer by (simp add: endsWith_def spec_endsInLe_def)
  next
    case (snoc zs y)
    then show ?thesis using outer by (auto simp add: endsWith_def spec_endsInLe_def butlast_append)
  qed
qed

lemma includes_vowels: "stringIncludes vowels c = spec_isVowel c"
  by (auto simp add: stringIncludes_def vowels_def spec_isVowel_def)

lemma third_from_end: "2 < length w \<Longrightarrow> w ! (length w - 3) = rev w ! 2"
  by (simp add: rev_nth numeral_3_eq_3)

lemma silentE_spec: "silentE w n = spec_adjustSilentE w n"
  by (simp add: silentE_def spec_adjustSilentE_def endsWith_e endsWith_le)

lemma endingLe_spec: "endingLe w n = spec_adjustLe w n"
  by (auto simp add: endingLe_def spec_adjustLe_def endsWith_le includes_vowels third_from_end)

lemma atLeastOne_max: "0 \<le> n \<Longrightarrow> atLeastOne n = max 1 n"
  by (simp add: atLeastOne_def)

section \<open>Claims about the estimator\<close>

text \<open>
  C1, as amended. The estimator returns 1 for \<open>cat\<close>, 3 for \<open>banana\<close>, 3 for \<open>apple\<close>,
  1 for \<open>the\<close> and 1 for \<open>a\<close>. For \<open>apple\<close> the two vowel groups give 2, the silent-e
  decrement is not applied because the word ends in \<open>le\<close>, and the le-increment gives 3.
\<close>

theorem estimate_examples:
  "countSyllables (JSString ''cat'') = 1
   \<and> countSyllables (JSString ''banana'') = 3
   \<and> countSyllables (JSString ''apple'') = 3
   \<and> countSyllables (JSString ''the'') = 1
   \<and> countSyllables (JSString ''a'') = 1"
  by code_simp

text \<open>
  C1, as stated, fails at \<open>apple\<close>: the estimate is not 2.
\<close>

theorem estimate_apple_counterexample: "countSyllables (JSString ''apple'') \<noteq> 2"
  by code_simp



text \<open>
  C3. For every token of length at least 2, the contribution to the total is the
  vowel-group count, then the silent-e decrement (token ends in \<open>e\<close>, count above 1, token
  not ending in \<open>le\<close>), then the le-increment (token ends in \<open>le\<close>, length above 2,
  character three positions from the end not a vowel), then the floor at 1.
\<close>

theorem token_adjustments:
  "2 \<le> length w \<Longrightarrow> wordStep w totalSyllables = totalSyllables + spec_tokenCount w"
proof -
  assume len: "2 \<le> length w"
  have "0 \<le> endingLe w (silentE w (vowelGroupLoop w False 0))"
    by (intro endingLe_pos silentE_pos vowelGroupLoop_ge)
  then have "atLeastOne (endingLe w (silentE w (vowelGroupLoop w False 0))) = spec_tokenCount w"
    by (simp add: atLeastOne_max spec_tokenCount_def silentE_spec endingLe_spec)
  moreover have "w \<noteq> []" "length w \<noteq> 1"
    using len by auto
  ultimately show ?thesis
    by (simp add: wordStep_def)
qed

theorem token_adjustments_witness:
  "2 \<le> length ''apple'' \<and> wordStep ''apple'' 0 = 0 + spec_tokenCount ''apple''
   \<and> spec_tokenCount ''apple'' = 3"
proof -
  have len: "2 \<le> length ''apple''" by simp
  have "spec_tokenCount ''apple'' = 3" by code_simp
  then show ?thesis
    using len token_adjustments [OF len, of 0] by simp
qed




section \<open>Properties of the synchronization pass\<close>

lemma line_eq:
  "updateSyllableCounts_line s l e i p = p\<lparr>syllableMarkers := syllableMarkers p @ lineMarkers s l e i\<rparr>"
  by (simp add: updateSyllableCounts_line_def lineMarkers_def emptyPlugin_def Let_def
      split: option.splits)

lemma fold_line_eq:
  "fold (updateSyllableCounts_line s l e) js p
     = p\<lparr>syllableMarkers := syllableMarkers p @ concat (map (lineMarkers s l e) js)\<rparr>"
proof (induction js arbitrary: p)
  case Nil
  show ?case by simp
next
  case (Cons j js)
  show ?case
    by (simp add: Cons.IH line_eq [of s l e j p])
qed

lemma try_snd:
  "snd (updateSyllableCounts_try s v p)
     = p\<lparr>syllableMarkers := passMarkers s v,
         isProcessing := isProcessing p \<and> fst (updateSyllableCounts_try s v p) \<noteq> Return\<rparr>"
  by (simp add: updateSyllableCounts_try_def passMarkers_def clearSyllableMarkers_def
      emptyPlugin_def fold_line_eq Let_def split: option.splits prod.splits)

lemma finally_eq:
  "updateSyllableCounts_finally p
     = p\<lparr>isProcessing := False,
         timeouts := (if pendingUpdate p then timeouts p @ [50] else timeouts p)\<rparr>"
  by (simp add: updateSyllableCounts_finally_def Let_def)

lemma pass_result:
  "\<not> isProcessing p \<Longrightarrow>
     updateSyllableCounts s v p
       = \<lparr>syllableMarkers = passMarkers s v, isProcessing = False, pendingUpdate = False,
          timeouts = timeouts p\<rparr>"
  by (simp add: updateSyllableCounts_def updateSyllableCounts_catch_def try_snd finally_eq)

lemma pass_busy: "isProcessing p \<Longrightarrow> updateSyllableCounts s v p = p\<lparr>pendingUpdate := True\<rparr>"
  by (simp add: updateSyllableCounts_def)


lemma markerText_zero: "markerText 0 = ''0 syllables''"
  by code_simp

lemma zero_count_line:
  assumes "0 \<le> index" and "index < int (length lines)" and "index < int (length lineElements)"
    and "countSyllables (JSString (lines ! nat index)) = 0"
  shows "syllableMarkers (updateSyllableCounts_line settings lines lineElements index p)
           = (if showZeroSyllables settings
              then syllableMarkers p
                     @ [\<lparr>textContent = ''0 syllables'',
                         styleTop = (case offsetTop (lineElements ! nat index) of
                                       None \<Rightarrow> None
                                     | Some t \<Rightarrow> Some (showInt t @ ''px''))\<rparr>]
              else syllableMarkers p)"
  using assms
  by (simp add: updateSyllableCounts_line_def arrayGet_def markerText_zero Let_def)

lemma range_when_counts_agree:
  assumes "\<not> onlyVisibleRange settings" and "length (cmLines el) = length lines"
  shows "updateSyllableCounts_range settings el
           = (0, min (int (length lines)) (maxLinesToProcess settings) - 1)"
  using assms by (simp add: updateSyllableCounts_range_def Let_def min_def)

section \<open>Claims about the synchronization pass\<close>



text \<open>
  C5, as amended. With \<open>onlyVisibleRange = false\<close> the line range of a pass is exactly
  \<open>[0, min(L, maxLinesToProcess) - 1]\<close>, where \<open>L\<close> is the number of line elements the
  renderer reports; an index at or beyond the number of lines of the document is
  skipped by the loop.
\<close>

theorem range_from_line_elements:
  "\<not> onlyVisibleRange settings \<Longrightarrow>
     updateSyllableCounts_range settings el
       = (0, min (int (length (cmLines el))) (maxLinesToProcess settings) - 1)
     \<and> (\<forall>index. int (length lines) \<le> index \<longrightarrow>
           updateSyllableCounts_line settings lines (cmLines el) index p = p)"
  by (simp add: updateSyllableCounts_range_def updateSyllableCounts_line_def Let_def min_def)

theorem range_from_line_elements_witness:
  "\<not> onlyVisibleRange (DEFAULT_SETTINGS\<lparr>onlyVisibleRange := False\<rparr>)
   \<and> updateSyllableCounts_range (DEFAULT_SETTINGS\<lparr>onlyVisibleRange := False\<rparr>)
        exampleEditorElement = (0, 1)
   \<and> updateSyllableCounts_line (DEFAULT_SETTINGS\<lparr>onlyVisibleRange := False\<rparr>)
        [''a''] (cmLines exampleEditorElement) 1 emptyPlugin = emptyPlugin"
proof -
  have off: "\<not> onlyVisibleRange (DEFAULT_SETTINGS\<lparr>onlyVisibleRange := False\<rparr>)"
    by simp
  show ?thesis
    using off
      range_from_line_elements [OF off, of exampleEditorElement "[''a'']" emptyPlugin]
    by (simp add: DEFAULT_SETTINGS_def exampleEditorElement_def)
qed

text \<open>
  C5, as stated, fails when the renderer reports fewer line elements than the document
  has lines: a document of 3 lines with 2 line elements has the range \<open>[0, 1]\<close>, not
  \<open>[0, min(3, 500) - 1]\<close>.
\<close>

theorem range_counterexample:
  "length (splitNewline ''a\<newline>b\<newline>c'') = 3
   \<and> updateSyllableCounts_range (DEFAULT_SETTINGS\<lparr>onlyVisibleRange := False\<rparr>)
        exampleEditorElement = (0, 1)
   \<and> updateSyllableCounts_range (DEFAULT_SETTINGS\<lparr>onlyVisibleRange := False\<rparr>)
        exampleEditorElement
       \<noteq> (0, min (int (length (splitNewline ''a\<newline>b\<newline>c'')))
                 (maxLinesToProcess (DEFAULT_SETTINGS\<lparr>onlyVisibleRange := False\<rparr>)) - 1)"
  by code_simp

text \<open>
  C6. With \<open>showZeroSyllables = true\<close>, a pass over a document whose second line is empty
  gives that line the marker text \<open>0 syllables\<close>. The settings have no verbosity field
  and the text is built in one way only, so no setting gives the text \<open>0\<close>.
\<close>

theorem zero_line_marker_text:
  "syllableMarkers
     (updateSyllableCounts (DEFAULT_SETTINGS\<lparr>showZeroSyllables := True\<rparr>)
        (exampleView ''the apple\<newline>'' None) emptyPlugin)
     = [\<lparr>textContent = ''4 syllables'', styleTop = Some ''0px''\<rparr>,
        \<lparr>textContent = ''0 syllables'', styleTop = Some ''20px''\<rparr>]"
  by code_simp

text \<open>
  C7. Two passes in a row on the same view with the same settings leave the same list
  of markers (texts and offsets) after the second as after the first.
\<close>

theorem pass_idempotent:
  "syllableMarkers (updateSyllableCounts settings view (updateSyllableCounts settings view p))
     = syllableMarkers (updateSyllableCounts settings view p)"
proof (cases "isProcessing p")
  case True
  then show ?thesis by (simp add: pass_busy)
next
  case False
  then show ?thesis by (simp add: pass_result)
qed

text \<open>
  C10. A pass that finds \<open>isProcessing\<close> false ends with \<open>isProcessing\<close> false, whatever
  the view: no editor, no editor element, no line elements, a host call that throws, or
  a complete run.
\<close>

theorem pass_releases_flag:
  "\<not> isProcessing p \<Longrightarrow> \<not> isProcessing (updateSyllableCounts settings view p)"
  by (simp add: pass_result)

theorem pass_releases_flag_witness:
  "\<not> isProcessing emptyPlugin
   \<and> fst (updateSyllableCounts_try DEFAULT_SETTINGS (exampleView ''the apple'' (Some AppendChild))
        (emptyPlugin\<lparr>isProcessing := True, pendingUpdate := False\<rparr>)) = Throw
   \<and> \<not> isProcessing
        (updateSyllableCounts DEFAULT_SETTINGS (exampleView ''the apple'' (Some AppendChild))
           emptyPlugin)"
proof -
  have idle: "\<not> isProcessing emptyPlugin"
    by (simp add: emptyPlugin_def)
  have thrown: "fst (updateSyllableCounts_try DEFAULT_SETTINGS
        (exampleView ''the apple'' (Some AppendChild))
        (emptyPlugin\<lparr>isProcessing := True, pendingUpdate := False\<rparr>)) = Throw"
    by code_simp
  show ?thesis
    using idle thrown
      pass_releases_flag [OF idle, of DEFAULT_SETTINGS "exampleView ''the apple'' (Some AppendChild)"]
    by simp
qed

end
